theory Spec2Isabelle
  imports Main "HOL-Library.Sublist"
begin

section \<open>Recruiter chat API: a shallow embedding of \<open>main.py\<close>\<close>

text \<open>
  The program is one request handler, \<open>chat_endpoint\<close>, over two external services: a
  document collection (\<open>chats_collection\<close>) and a chat-completion provider reached by
  \<open>get_chat_response\<close>. The collection is state that is passed in and returned. Whatever
  the handler reads from outside (the environment variable, the provider's answer, a
  failure of the database driver, the clock, the text of an exception, what pydantic makes
  of a number where a string is declared) is a field of an environment record, so every
  theorem below holds for every behaviour of the outside world. Exceptions are values: a function that can raise returns \<open>exn + 'a\<close>.
\<close>

subsection \<open>Data\<close>

type_synonym datetime = nat

text \<open>
  JSON values, as \<open>response.json()\<close> yields them and as the collection stores them. A
  number is kept as its literal.
\<close>

datatype json =
  JNull
| JBool bool
| JNumber string
| JString string
| JArray "json list"
| JObject "(string \<times> json) list"

text \<open>
  The message dictionaries of the handler. A dictionary built with the keys \<open>role\<close>,
  \<open>content\<close> and \<open>timestamp\<close> has \<open>timestamp = Some t\<close>; one built with \<open>role\<close> and
  \<open>content\<close> only has \<open>timestamp = None\<close>. The content of the user message is the
  string of the request; the content of the assistant message is whatever value
  \<open>get_chat_response\<close> returned.
\<close>

record message =
  role :: string
  content :: json
  timestamp :: "datetime option"

text \<open>The pydantic models \<open>RecruiterInfo\<close>, \<open>ChatRequest\<close> and \<open>ChatResponse\<close>.\<close>

record RecruiterInfo =
  company :: "string option"
  email :: "string option"
  name :: "string option"

record ChatRequest =
  message :: string
  req_session_id :: string
  req_recruiter_info :: "RecruiterInfo option"

record ChatResponse =
  response :: string
  resp_session_id :: string

text \<open>
  A document of the collection. The handler inserts a document with the keys
  \<open>session_id\<close>, \<open>messages\<close>, \<open>recruiter_info\<close> and \<open>created_at\<close>; the key \<open>updated_at\<close> is
  written by the \<open>$set\<close> of the update only, so it is optional here. The stored
  \<open>recruiter_info\<close> is a dictionary: the three keys of \<open>RecruiterInfo.dict()\<close>, or \<open>{}\<close>.
\<close>

record chat_doc =
  session_id :: string
  messages :: "message list"
  recruiter_info :: "(string \<times> string option) list"
  created_at :: datetime
  updated_at :: "datetime option"

type_synonym collection = "chat_doc list"

text \<open>
  Exceptions: FastAPI's \<open>HTTPException(status_code, detail)\<close>, \<open>httpx.TimeoutException\<close>,
  and any other exception, named by a label.
\<close>

datatype exn = HTTPException nat string | TimeoutException | Error string

text \<open>
  The provider's HTTP response: \<open>status_code\<close>, \<open>text\<close>, and what
  \<open>response.json()["choices"][i]["message"]["content"]\<close> yields for each \<open>i\<close>: the list of
  the contents of the completion choices, each of them any JSON value (\<open>null\<close> included),
  or the exception that \<open>response.json()\<close> or the key lookups raise on a body of another
  shape.
\<close>

record http_response =
  status_code :: nat
  resp_text :: string
  json_choices :: "exn + json list"

datatype post_outcome = Raises exn | Returns http_response

record env =
  CANDIDATE_INFO :: string
  GROQ_API_KEY :: "string option"
  post :: "message list \<Rightarrow> post_outcome"
  find_one_raises :: "exn option"
  insert_one_raises :: "exn option"
  update_one_raises :: "exn option"
  utcnow_created :: datetime
  utcnow_user :: datetime
  utcnow_assistant :: datetime
  utcnow_updated :: datetime
  str :: "exn \<Rightarrow> string"
  str_validator :: "json \<Rightarrow> string option"

subsection \<open>The collection\<close>

text \<open>
  \<open>find_one\<close> returns the first document with the given \<open>session_id\<close>, \<open>insert_one\<close> adds
  a document, \<open>update_one\<close> with \<open>$push ... $each\<close> and \<open>$set\<close> changes the first matching
  document and does nothing when none matches. A driver failure raises and leaves the
  collection as it was.
\<close>

fun first_match :: "string \<Rightarrow> collection \<Rightarrow> chat_doc option" where
  "first_match sid [] = None"
| "first_match sid (d # ds) = (if session_id d = sid then Some d else first_match sid ds)"

fun update_first :: "string \<Rightarrow> (chat_doc \<Rightarrow> chat_doc) \<Rightarrow> collection \<Rightarrow> collection" where
  "update_first sid f [] = []"
| "update_first sid f (d # ds) =
     (if session_id d = sid then f d # ds else d # update_first sid f ds)"

definition find_one :: "env \<Rightarrow> collection \<Rightarrow> string \<Rightarrow> exn + chat_doc option" where
  "find_one e db sid =
     (case find_one_raises e of Some x \<Rightarrow> Inl x | None \<Rightarrow> Inr (first_match sid db))"

definition insert_one :: "env \<Rightarrow> collection \<Rightarrow> chat_doc \<Rightarrow> exn + collection" where
  "insert_one e db d =
     (case insert_one_raises e of Some x \<Rightarrow> Inl x | None \<Rightarrow> Inr (db @ [d]))"

definition push_and_set :: "message list \<Rightarrow> datetime \<Rightarrow> chat_doc \<Rightarrow> chat_doc" where
  "push_and_set ms t d = d\<lparr>messages := messages d @ ms, updated_at := Some t\<rparr>"

definition update_one ::
  "env \<Rightarrow> collection \<Rightarrow> string \<Rightarrow> message list \<Rightarrow> datetime \<Rightarrow> exn + collection" where
  "update_one e db sid ms t =
     (case update_one_raises e of
        Some x \<Rightarrow> Inl x
      | None \<Rightarrow> Inr (update_first sid (push_and_set ms t) db))"

subsection \<open>The LLM client\<close>

text \<open>
  \<open>get_chat_response\<close> returns its result together with the \<open>messages\<close> of every request
  it posted to the provider. Its result is the content of the first choice as it is, a
  string or not. The credential test \<open>not groq_api_key\<close> holds for an unset
  variable and for the empty string. An \<open>HTTPException\<close> raised inside the \<open>try\<close> block for
  a status other than 200, and any exception of \<open>response.json()\<close> or of the key lookups,
  is caught by \<open>except Exception\<close> of the same block, as it is no \<open>TimeoutException\<close>.
\<close>

definition system_message :: "env \<Rightarrow> message" where
  "system_message e = \<lparr>role = ''system'', content = JString (CANDIDATE_INFO e), timestamp = None\<rparr>"

definition api_error :: "env \<Rightarrow> exn \<Rightarrow> exn" where
  "api_error e x = HTTPException 500 (''Error calling Groq API: '' @ str e x)"

definition get_chat_response :: "env \<Rightarrow> message list \<Rightarrow> (exn + json) \<times> message list list" where
  "get_chat_response e msgs =
     (let api_messages = [system_message e] @ msgs in
      if GROQ_API_KEY e = None \<or> GROQ_API_KEY e = Some []
      then (Inl (HTTPException 500 ''Groq API key not configured''), [])
      else
        (case post e api_messages of
           Raises TimeoutException \<Rightarrow> (Inl (HTTPException 504 ''Request timeout''), [api_messages])
         | Raises x \<Rightarrow> (Inl (api_error e x), [api_messages])
         | Returns r \<Rightarrow>
             if status_code r = 200 then
               (case json_choices r of
                  Inl x \<Rightarrow> (Inl (api_error e x), [api_messages])
                | Inr [] \<Rightarrow> (Inl (api_error e (Error ''IndexError'')), [api_messages])
                | Inr (c # cs) \<Rightarrow> (Inr c, [api_messages]))
             else
               (Inl (api_error e
                      (HTTPException (status_code r) (''Groq API error: '' @ resp_text r))),
                [api_messages])))"

subsection \<open>The chat endpoint\<close>

text \<open>Python's \<open>xs[i:]\<close>: a negative \<open>i\<close> counts from the end and is clipped at the start.\<close>

definition slice_from :: "int \<Rightarrow> 'a list \<Rightarrow> 'a list" where
  "slice_from i xs =
     (let n = int (length xs);
          start = (if i < 0 then max (n + i) 0 else min i n)
      in drop (nat start) xs)"

definition recruiter_dict :: "RecruiterInfo \<Rightarrow> (string \<times> string option) list" where
  "recruiter_dict r = [(''company'', company r), (''email'', email r), (''name'', name r)]"

definition new_chat_doc :: "env \<Rightarrow> ChatRequest \<Rightarrow> chat_doc" where
  "new_chat_doc e rq =
     \<lparr>session_id = req_session_id rq,
      messages = [],
      recruiter_info = (case req_recruiter_info rq of Some r \<Rightarrow> recruiter_dict r | None \<Rightarrow> []),
      created_at = utcnow_created e,
      updated_at = None\<rparr>"

text \<open>Lines 150 to 160: the stored conversation, or a new one inserted.\<close>

definition get_or_create :: "env \<Rightarrow> collection \<Rightarrow> ChatRequest \<Rightarrow> exn + chat_doc \<times> collection" where
  "get_or_create e db rq =
     (case find_one e db (req_session_id rq) of
        Inl x \<Rightarrow> Inl x
      | Inr (Some d) \<Rightarrow> Inr (d, db)
      | Inr None \<Rightarrow>
          (case insert_one e db (new_chat_doc e rq) of
             Inl x \<Rightarrow> Inl x
           | Inr db' \<Rightarrow> Inr (new_chat_doc e rq, db')))"

definition user_message :: "env \<Rightarrow> ChatRequest \<Rightarrow> message" where
  "user_message e rq =
     \<lparr>role = ''user'', content = JString (message rq), timestamp = Some (utcnow_user e)\<rparr>"

definition assistant_message :: "env \<Rightarrow> json \<Rightarrow> message" where
  "assistant_message e ai_response =
     \<lparr>role = ''assistant'', content = ai_response, timestamp = Some (utcnow_assistant e)\<rparr>"

text \<open>Lines 170 and 171.\<close>

definition messages_for_ai :: "chat_doc \<Rightarrow> ChatRequest \<Rightarrow> message list" where
  "messages_for_ai d rq =
     (if messages d \<noteq> [] then slice_from (- 10) (messages d) else [])
     @ [\<lparr>role = ''user'', content = JString (message rq), timestamp = None\<rparr>]"

text \<open>
  Line 196: \<open>ChatResponse(response=ai_response, session_id=...)\<close>. The field \<open>response\<close> is
  declared \<open>str\<close>: a string is taken as it is, \<open>null\<close>, an array and an object raise
  \<open>ValidationError\<close>, and a number or a boolean is coerced or refused as the installed
  pydantic does (\<open>str_validator\<close>: the coerced string, or \<open>None\<close> when it refuses).
\<close>

definition new_ChatResponse :: "env \<Rightarrow> json \<Rightarrow> string \<Rightarrow> exn + ChatResponse" where
  "new_ChatResponse e v sid =
     (case v of
        JString s \<Rightarrow> Inr \<lparr>response = s, resp_session_id = sid\<rparr>
      | JNumber n \<Rightarrow>
          (case str_validator e v of
             Some s \<Rightarrow> Inr \<lparr>response = s, resp_session_id = sid\<rparr>
           | None \<Rightarrow> Inl (Error ''ValidationError''))
      | JBool b \<Rightarrow>
          (case str_validator e v of
             Some s \<Rightarrow> Inr \<lparr>response = s, resp_session_id = sid\<rparr>
           | None \<Rightarrow> Inl (Error ''ValidationError''))
      | JNull \<Rightarrow> Inl (Error ''ValidationError'')
      | JArray vs \<Rightarrow> Inl (Error ''ValidationError'')
      | JObject kvs \<Rightarrow> Inl (Error ''ValidationError''))"

text \<open>
  What one call does: its result, the collection afterwards, the argument and the result
  of \<open>get_chat_response\<close> when the call got that far, the requests posted to the
  provider, and the turns that its \<open>update_one\<close> pushed.
\<close>

record outcome =
  result :: "exn + ChatResponse"
  db_after :: collection
  llm_call :: "(message list \<times> (exn + json)) option"
  posted :: "message list list"
  appended :: "message list"

text \<open>
  The body of the \<open>try\<close> block of \<open>chat_endpoint\<close>. The response is built after the
  update: when building it raises, the two turns are already in the collection.
\<close>

definition chat_body :: "env \<Rightarrow> collection \<Rightarrow> ChatRequest \<Rightarrow> outcome" where
  "chat_body e db rq =
     (case get_or_create e db rq of
        Inl x \<Rightarrow>
          \<lparr>result = Inl x, db_after = db, llm_call = None, posted = [], appended = []\<rparr>
      | Inr (d, db1) \<Rightarrow>
          (case get_chat_response e (messages_for_ai d rq) of
             (Inl x, sent) \<Rightarrow>
               \<lparr>result = Inl x, db_after = db1,
                llm_call = Some (messages_for_ai d rq, Inl x), posted = sent, appended = []\<rparr>
           | (Inr ai_response, sent) \<Rightarrow>
               (case update_one e db1 (req_session_id rq)
                       [user_message e rq, assistant_message e ai_response] (utcnow_updated e) of
                  Inl x \<Rightarrow>
                    \<lparr>result = Inl x, db_after = db1,
                     llm_call = Some (messages_for_ai d rq, Inr ai_response), posted = sent,
                     appended = []\<rparr>
                | Inr db2 \<Rightarrow>
                    \<lparr>result = new_ChatResponse e ai_response (req_session_id rq),
                     db_after = db2,
                     llm_call = Some (messages_for_ai d rq, Inr ai_response), posted = sent,
                     appended = [user_message e rq, assistant_message e ai_response]\<rparr>)))"

text \<open>The handler: \<open>except Exception\<close> turns every exception of the body into a 500.\<close>

definition chat_endpoint :: "env \<Rightarrow> collection \<Rightarrow> ChatRequest \<Rightarrow> outcome" where
  "chat_endpoint e db rq =
     (let out = chat_body e db rq in
      case result out of
        Inl x \<Rightarrow> out\<lparr>result := Inl (HTTPException 500 (''Error processing chat: '' @ str e x))\<rparr>
      | Inr r \<Rightarrow> out)"

text \<open>The stored message sequence of a session; a session that is not stored has none.\<close>

definition stored_messages :: "collection \<Rightarrow> string \<Rightarrow> message list" where
  "stored_messages db sid = (case first_match sid db of Some d \<Rightarrow> messages d | None \<Rightarrow> [])"

text \<open>A sequence of calls, one after the other, each in its own environment.\<close>

fun run_calls :: "collection \<Rightarrow> (env \<times> ChatRequest) list \<Rightarrow> collection \<times> outcome list" where
  "run_calls db [] = (db, [])"
| "run_calls db (c # cs) =
     (let out = chat_endpoint (fst c) db (snd c);
          rest = run_calls (db_after out) cs
      in (fst rest, out # snd rest))"

subsection \<open>Example environments and requests\<close>

text \<open>
  Concrete inputs on which the model is run below: a rendering of exceptions as text; a
  provider that answers with one choice of a given content, when the request can be
  encoded, and whose client raises \<open>TypeError\<close> on a message that carries a timestamp, as
  the JSON encoder does on a \<open>datetime\<close>; a provider that times out; a provider that
  answers with a status other than 200; an environment with a working database and a
  pydantic that refuses numbers and booleans for a \<open>str\<close> field.
\<close>

fun example_str :: "exn \<Rightarrow> string" where
  "example_str (HTTPException c d) = d"
| "example_str TimeoutException = ''timeout''"
| "example_str (Error s) = s"

definition answering :: "json \<Rightarrow> message list \<Rightarrow> post_outcome" where
  "answering v ms =
     (if list_ex (\<lambda>m. timestamp m \<noteq> None) ms then Raises (Error ''TypeError'')
      else Returns \<lparr>status_code = 200, resp_text = ''{...}'', json_choices = Inr [v]\<rparr>)"

definition timing_out :: "message list \<Rightarrow> post_outcome" where
  "timing_out ms = Raises TimeoutException"

definition rejecting :: "message list \<Rightarrow> post_outcome" where
  "rejecting ms =
     Returns \<lparr>status_code = 429, resp_text = ''rate limit'', json_choices = Inl (Error ''KeyError'')\<rparr>"

definition refusing :: "json \<Rightarrow> string option" where
  "refusing v = None"

definition example_env :: "string option \<Rightarrow> (message list \<Rightarrow> post_outcome) \<Rightarrow> env" where
  "example_env key p =
     \<lparr>CANDIDATE_INFO = ''Name: A'', GROQ_API_KEY = key, post = p,
      find_one_raises = None, insert_one_raises = None, update_one_raises = None,
      utcnow_created = 1, utcnow_user = 2, utcnow_assistant = 3, utcnow_updated = 4,
      str = example_str, str_validator = refusing\<rparr>"

definition example_request :: "string \<Rightarrow> string \<Rightarrow> ChatRequest" where
  "example_request sid m = \<lparr>message = m, req_session_id = sid, req_recruiter_info = None\<rparr>"

definition example_request_from :: "string \<Rightarrow> string \<Rightarrow> ChatRequest" where
  "example_request_from sid m =
     \<lparr>message = m, req_session_id = sid,
      req_recruiter_info =
        Some \<lparr>company = Some ''Acme'', email = Some ''r@acme.example'', name = None\<rparr>\<rparr>"

definition stored_turn :: "string \<Rightarrow> string \<Rightarrow> datetime \<Rightarrow> message" where
  "stored_turn r c t = \<lparr>role = r, content = JString c, timestamp = Some t\<rparr>"

definition example_doc :: "string \<Rightarrow> message list \<Rightarrow> chat_doc" where
  "example_doc sid ms =
     \<lparr>session_id = sid, messages = ms, recruiter_info = [], created_at = 0,
      updated_at = (if ms = [] then None else Some 0)\<rparr>"

fun example_turns :: "nat \<Rightarrow> message list" where
  "example_turns 0 = []"
| "example_turns (Suc n) =
     example_turns n
     @ [stored_turn (if even n then ''user'' else ''assistant'') (replicate n CHR ''x'') n]"

section \<open>Properties\<close>

subsection \<open>Unfolding the model\<close>

lemmas model_defs =
  chat_endpoint_def chat_body_def get_or_create_def find_one_def insert_one_def update_one_def
  get_chat_response_def messages_for_ai_def new_chat_doc_def user_message_def
  assistant_message_def system_message_def api_error_def push_and_set_def slice_from_def
  stored_messages_def recruiter_dict_def new_ChatResponse_def

lemmas example_defs =
  example_env_def example_request_def example_request_from_def answering_def timing_out_def
  rejecting_def refusing_def stored_turn_def example_doc_def

lemma length_example_turns [simp]: "length (example_turns n) = n"
  by (induction n) simp_all

subsection \<open>The collection\<close>

lemma first_match_append:
  "first_match sid (db @ [d]) =
     (case first_match sid db of Some x \<Rightarrow> Some x
      | None \<Rightarrow> if session_id d = sid then Some d else None)"
  by (induction db) auto

lemma first_match_session_id: "first_match sid db = Some d \<Longrightarrow> session_id d = sid"
  by (induction db) (auto split: if_splits)

lemma first_match_mem: "first_match sid db = Some d \<Longrightarrow> d \<in> set db"
  by (induction db) (auto split: if_splits)

lemma first_match_None: "first_match sid db = None \<longleftrightarrow> sid \<notin> session_id ` set db"
  by (induction db) auto

lemma first_match_update_first:
  assumes "\<And>d. session_id (f d) = session_id d"
  shows "first_match s (update_first sid f db) =
     (if s = sid then map_option f (first_match sid db) else first_match s db)"
  using assms by (induction db) auto

lemma session_id_push_and_set [simp]: "session_id (push_and_set ms t d) = session_id d"
  by (simp add: push_and_set_def)

lemma new_chat_doc_simps [simp]:
  "session_id (new_chat_doc e rq) = req_session_id rq"
  "messages (new_chat_doc e rq) = []"
  "updated_at (new_chat_doc e rq) = None"
  "created_at (new_chat_doc e rq) = utcnow_created e"
  by (simp_all add: new_chat_doc_def)

text \<open>For a positive \<open>k\<close>, \<open>xs[-k:]\<close> is the list without its first \<open>len(xs) - k\<close> elements.\<close>

lemma slice_from_last: "0 < k \<Longrightarrow> slice_from (- int k) xs = drop (length xs - k) xs"
  by (auto simp: slice_from_def Let_def max_def intro: arg_cong[where f="\<lambda>n. drop n xs"])

subsection \<open>Resolving the session\<close>

lemma get_or_create_cases:
  "get_or_create e db rq = Inr (d, db1) \<Longrightarrow>
     (first_match (req_session_id rq) db = Some d \<and> db1 = db) \<or>
     (first_match (req_session_id rq) db = None \<and> d = new_chat_doc e rq \<and> db1 = db @ [d])"
  by (auto simp: get_or_create_def find_one_def insert_one_def split: option.splits sum.splits)


lemma get_or_create_stored:
  "get_or_create e db rq = Inr (d, db1) \<Longrightarrow> stored_messages db1 s = stored_messages db s"
  by (auto simp: first_match_append stored_messages_def split: option.splits if_splits
      dest!: get_or_create_cases)

lemma get_or_create_messages:
  "get_or_create e db rq = Inr (d, db1) \<Longrightarrow> messages d = stored_messages db (req_session_id rq)"
  by (auto simp: first_match_append stored_messages_def split: option.splits if_splits
      dest!: get_or_create_cases)

subsection \<open>The five ways a call can end\<close>

text \<open>
  A call ends in one of five ways: the session could not be resolved, the LLM client
  raised, the update raised, the response could not be built after the update, or
  everything went through.
\<close>

lemma chat_endpoint_cases
  [case_names store_failed llm_failed update_failed response_failed success]:
  obtains
    (store_failed) x where
      "get_or_create e db rq = Inl x"
      "chat_endpoint e db rq =
         \<lparr>result = Inl (HTTPException 500 (''Error processing chat: '' @ str e x)),
          db_after = db, llm_call = None, posted = [], appended = []\<rparr>"
      "result (chat_body e db rq) = Inl x"
  | (llm_failed) d db1 x sent where
      "get_or_create e db rq = Inr (d, db1)"
      "get_chat_response e (messages_for_ai d rq) = (Inl x, sent)"
      "chat_endpoint e db rq =
         \<lparr>result = Inl (HTTPException 500 (''Error processing chat: '' @ str e x)),
          db_after = db1, llm_call = Some (messages_for_ai d rq, Inl x), posted = sent,
          appended = []\<rparr>"
      "result (chat_body e db rq) = Inl x"
  | (update_failed) d db1 ai sent x where
      "get_or_create e db rq = Inr (d, db1)"
      "get_chat_response e (messages_for_ai d rq) = (Inr ai, sent)"
      "update_one_raises e = Some x"
      "chat_endpoint e db rq =
         \<lparr>result = Inl (HTTPException 500 (''Error processing chat: '' @ str e x)),
          db_after = db1, llm_call = Some (messages_for_ai d rq, Inr ai), posted = sent,
          appended = []\<rparr>"
      "result (chat_body e db rq) = Inl x"
  | (response_failed) d db1 ai sent x where
      "get_or_create e db rq = Inr (d, db1)"
      "get_chat_response e (messages_for_ai d rq) = (Inr ai, sent)"
      "update_one_raises e = None"
      "chat_endpoint e db rq =
         \<lparr>result = Inl (HTTPException 500 (''Error processing chat: '' @ str e x)),
          db_after = update_first (req_session_id rq)
                       (push_and_set [user_message e rq, assistant_message e ai] (utcnow_updated e))
                       db1,
          llm_call = Some (messages_for_ai d rq, Inr ai), posted = sent,
          appended = [user_message e rq, assistant_message e ai]\<rparr>"
      "new_ChatResponse e ai (req_session_id rq) = Inl x"
      "result (chat_body e db rq) = Inl x"
  | (success) d db1 ai sent r where
      "get_or_create e db rq = Inr (d, db1)"
      "get_chat_response e (messages_for_ai d rq) = (Inr ai, sent)"
      "update_one_raises e = None"
      "chat_endpoint e db rq =
         \<lparr>result = Inr r,
          db_after = update_first (req_session_id rq)
                       (push_and_set [user_message e rq, assistant_message e ai] (utcnow_updated e))
                       db1,
          llm_call = Some (messages_for_ai d rq, Inr ai), posted = sent,
          appended = [user_message e rq, assistant_message e ai]\<rparr>"
      "new_ChatResponse e ai (req_session_id rq) = Inr r"
      "result (chat_body e db rq) = Inr r"
proof (cases "get_or_create e db rq")
  case (Inl x)
  then show ?thesis using store_failed by (simp add: chat_endpoint_def chat_body_def)
next
  case (Inr p)
  obtain d db1 where p: "p = (d, db1)" by (cases p)
  note goc = Inr[unfolded p]
  obtain g sent where g: "get_chat_response e (messages_for_ai d rq) = (g, sent)"
    by (cases "get_chat_response e (messages_for_ai d rq)")
  show ?thesis
  proof (cases g)
    case (Inl x)
    then show ?thesis using goc g llm_failed by (simp add: chat_endpoint_def chat_body_def)
  next
    case ai: (Inr ai)
    show ?thesis
    proof (cases "update_one_raises e")
      case (Some x)
      then show ?thesis using goc g ai update_failed
        by (simp add: chat_endpoint_def chat_body_def update_one_def)
    next
      case None
      show ?thesis
      proof (cases "new_ChatResponse e ai (req_session_id rq)")
        case (Inl x)
        then show ?thesis using None goc g ai response_failed
          by (simp add: chat_endpoint_def chat_body_def update_one_def)
      next
        case (Inr r)
        then show ?thesis using None goc g ai success
          by (simp add: chat_endpoint_def chat_body_def update_one_def)
      qed
    qed
  qed
qed

lemma new_ChatResponse_session_id:
  "new_ChatResponse e v sid = Inr r \<Longrightarrow> resp_session_id r = sid"
  by (auto simp: new_ChatResponse_def split: json.splits option.splits)

subsection \<open>Updating the first matching document\<close>

lemma update_first_map:
  assumes "\<And>d. g (f d) = g d"
  shows "map g (update_first sid f db) = map g db"
  using assms by (induction db) auto

lemma update_first_append_new:
  "first_match sid db = None \<Longrightarrow> session_id d = sid \<Longrightarrow>
     update_first sid f (db @ [d]) = db @ [f d]"
  by (induction db) (auto split: if_splits)

lemma update_first_other:
  "i < length db \<Longrightarrow> session_id (db ! i) \<noteq> sid \<Longrightarrow> update_first sid f db ! i = db ! i"
proof (induction db arbitrary: i)
  case Nil
  then show ?case by simp
next
  case (Cons a db)
  then show ?case by (cases i) auto
qed

lemma length_update_first [simp]: "length (update_first sid f db) = length db"
  by (induction db) auto

lemma set_update_first:
  "d' \<in> set (update_first sid f db) \<Longrightarrow> d' \<in> set db \<or> (\<exists>d\<in>set db. session_id d = sid \<and> d' = f d)"
  by (induction db) (auto split: if_splits)

lemma get_or_create_distinct:
  assumes "get_or_create e db rq = Inr (d, db1)" and "distinct (map session_id db)"
  shows "distinct (map session_id db1)"
  using get_or_create_cases[OF assms(1)] assms(2)
  by (auto simp: first_match_None)

lemma get_or_create_set:
  assumes "get_or_create e db rq = Inr (d, db1)" and "d' \<in> set db1"
  shows "d' \<in> set db \<or> d' = new_chat_doc e rq"
  using get_or_create_cases[OF assms(1)] assms(2) by auto

subsection \<open>One call keeps the shape of the records\<close>

lemma record_shape_step:
  assumes "distinct (map session_id db)"
    and "\<forall>d\<in>set db. (\<forall>m\<in>set (messages d).
                         timestamp m \<noteq> None \<and> role m \<in> {''user'', ''assistant''})
                     \<and> (updated_at d \<noteq> None \<longleftrightarrow> messages d \<noteq> [])"
  shows "distinct (map session_id (db_after (chat_endpoint e db rq)))
       \<and> (\<forall>d\<in>set (db_after (chat_endpoint e db rq)).
            (\<forall>m\<in>set (messages d). timestamp m \<noteq> None \<and> role m \<in> {''user'', ''assistant''})
            \<and> (updated_at d \<noteq> None \<longleftrightarrow> messages d \<noteq> []))"
proof -
  let ?ok = "\<lambda>d. (\<forall>m\<in>set (messages d). timestamp m \<noteq> None \<and> role m \<in> {''user'', ''assistant''})
                 \<and> (updated_at d \<noteq> None \<longleftrightarrow> messages d \<noteq> [])"
  have inv1: "\<forall>d'\<in>set db1. ?ok d'" if "get_or_create e db rq = Inr (d, db1)" for d db1
    using get_or_create_set[OF that] assms(2) by fastforce
  have f_ok: "?ok (push_and_set [user_message e rq, assistant_message e ai] t d0)"
    if "?ok d0" for d0 ai t
    using that by (auto simp: push_and_set_def user_message_def assistant_message_def)
  have pushed: "\<forall>d'\<in>set (update_first (req_session_id rq)
                    (push_and_set [user_message e rq, assistant_message e ai] t) db1). ?ok d'"
    if "\<forall>d'\<in>set db1. ?ok d'" for db1 ai t
  proof
    fix d'
    assume "d' \<in> set (update_first (req_session_id rq)
                    (push_and_set [user_message e rq, assistant_message e ai] t) db1)"
    then consider "d' \<in> set db1"
      | d0 where "d0 \<in> set db1"
          "d' = push_and_set [user_message e rq, assistant_message e ai] t d0"
      by (auto dest: set_update_first)
    then show "?ok d'"
    proof cases
      case 1
      then show ?thesis using that by blast
    next
      case 2
      then have "?ok d0" using that by blast
      then show ?thesis unfolding 2(2) by (rule f_ok)
    qed
  qed
  show ?thesis
  proof (cases rule: chat_endpoint_cases[of e db rq])
    case (store_failed x)
    then show ?thesis using assms by simp
  next
    case (llm_failed d db1 x sent)
    then show ?thesis
      using get_or_create_distinct[OF llm_failed(1) assms(1)] inv1[OF llm_failed(1)] by simp
  next
    case (update_failed d db1 ai sent x)
    then show ?thesis
      using get_or_create_distinct[OF update_failed(1) assms(1)] inv1[OF update_failed(1)]
      by simp
  next
    case (response_failed d db1 ai sent x)
    let ?f = "push_and_set [user_message e rq, assistant_message e ai] (utcnow_updated e)"
    have d1: "distinct (map session_id (update_first (req_session_id rq) ?f db1))"
      using get_or_create_distinct[OF response_failed(1) assms(1)] by (simp add: update_first_map)
    have i1: "\<forall>d'\<in>set (update_first (req_session_id rq) ?f db1). ?ok d'"
      using pushed[OF inv1[OF response_failed(1)]] .
    show ?thesis using d1 i1 by (simp add: response_failed(4))
  next
    case (success d db1 ai sent r)
    let ?f = "push_and_set [user_message e rq, assistant_message e ai] (utcnow_updated e)"
    have d1: "distinct (map session_id (update_first (req_session_id rq) ?f db1))"
      using get_or_create_distinct[OF success(1) assms(1)] by (simp add: update_first_map)
    have i1: "\<forall>d'\<in>set (update_first (req_session_id rq) ?f db1). ?ok d'"
      using pushed[OF inv1[OF success(1)]] .
    show ?thesis using d1 i1 by (simp add: success(4))
  qed
qed

subsection \<open>The stored messages after a call and after a sequence of calls\<close>



lemma length_run_calls [simp]: "length (snd (run_calls db cs)) = length cs"
  by (induction cs arbitrary: db) (simp_all add: Let_def)

text \<open>What a call appended: nothing when it failed before or at the update, else its two turns.\<close>

lemma appended_cases:
  "appended (chat_endpoint e db rq) = []
   \<or> (\<exists>ai. appended (chat_endpoint e db rq) = [user_message e rq, assistant_message e ai]
          \<and> new_ChatResponse e ai (req_session_id rq) = result (chat_body e db rq))"
  by (cases rule: chat_endpoint_cases[of e db rq]) auto


subsection \<open>The LLM client\<close>

text \<open>
  With a credential configured the client posts one request, whose messages are the system
  prompt followed by the messages it was given; on status 200 it returns the content of
  the first choice. It raises when the credential is missing, when the post raises and
  when the status is not 200.
\<close>

lemma provider_message_list:
  assumes "GROQ_API_KEY e = Some k" and "k \<noteq> []"
  shows "snd (get_chat_response e ms) = [system_message e # ms]"
  using assms
  by (auto simp: get_chat_response_def Let_def split: post_outcome.splits exn.splits sum.splits
      list.splits)

lemma first_choice_is_returned:
  assumes "GROQ_API_KEY e = Some k" and "k \<noteq> []"
    and "post e (system_message e # ms) = Returns r"
    and "status_code r = 200" and "json_choices r = Inr (c # cs)"
  shows "fst (get_chat_response e ms) = Inr c"
  using assms by (simp add: get_chat_response_def)

lemma llm_client_failures:
  "GROQ_API_KEY e = None \<or> GROQ_API_KEY e = Some [] \<Longrightarrow> isl (fst (get_chat_response e ms))"
  "post e (system_message e # ms) = Raises x \<Longrightarrow> isl (fst (get_chat_response e ms))"
  "post e (system_message e # ms) = Returns r \<Longrightarrow> status_code r \<noteq> 200 \<Longrightarrow>
     isl (fst (get_chat_response e ms))"
  by (auto simp: get_chat_response_def Let_def split: exn.splits)

subsection \<open>A failing LLM call\<close>

text \<open>
  C1. When \<open>get_chat_response\<close> raises during a chat call, whatever the reason, the call
  appends no turn: the stored message sequence of every session is what it was before
  the call, so the user message is not stored on its own. The collection is unchanged,
  or has gained the empty record of a session that was not stored before; the call
  itself fails.
\<close>

theorem llm_failure_appends_no_turns:
  assumes "llm_call (chat_endpoint e db rq) = Some (ms, Inl x)"
  shows "fst (get_chat_response e ms) = Inl x
       \<and> (\<forall>sid. stored_messages (db_after (chat_endpoint e db rq)) sid = stored_messages db sid)
       \<and> (db_after (chat_endpoint e db rq) = db
          \<or> db_after (chat_endpoint e db rq) = db @ [new_chat_doc e rq])
       \<and> isl (result (chat_endpoint e db rq))"
proof (cases rule: chat_endpoint_cases[of e db rq])
  case (llm_failed d db1 y sent)
  with assms have "ms = messages_for_ai d rq" "y = x" by simp_all
  with llm_failed show ?thesis
    by (auto simp: get_or_create_stored dest: get_or_create_cases)
qed (use assms in simp_all)

theorem llm_failure_appends_no_turns_witness:
  "llm_call (chat_endpoint (example_env (Some ''k'') timing_out) [] (example_request ''s1'' ''hi''))
     = Some ([\<lparr>role = ''user'', content = JString ''hi'', timestamp = None\<rparr>],
             Inl (HTTPException 504 ''Request timeout''))
   \<and> stored_messages
        (db_after (chat_endpoint (example_env (Some ''k'') timing_out) []
                     (example_request ''s1'' ''hi'')))
        ''s1'' = []
   \<and> isl (result (chat_endpoint (example_env (Some ''k'') timing_out) []
                    (example_request ''s1'' ''hi'')))"
proof -
  have h: "llm_call (chat_endpoint (example_env (Some ''k'') timing_out) []
                       (example_request ''s1'' ''hi''))
     = Some ([\<lparr>role = ''user'', content = JString ''hi'', timestamp = None\<rparr>],
             Inl (HTTPException 504 ''Request timeout''))"
    by (simp add: model_defs example_defs)
  show ?thesis
    using h llm_failure_appends_no_turns [OF h] by (simp add: stored_messages_def)
qed

subsection \<open>The context window\<close>

text \<open>
  C2. The history passed to \<open>get_chat_response\<close> is the last 10 stored turns of the
  session, all of them when there are fewer, in stored order and followed by the new
  user message: it is a suffix of the stored sequence of length \<open>min 10 n\<close>.
\<close>

theorem context_is_last_ten_stored_turns:
  assumes "llm_call (chat_endpoint e db rq) = Some (ms, r)"
  shows "ms = drop (length (stored_messages db (req_session_id rq)) - 10)
                (stored_messages db (req_session_id rq))
              @ [\<lparr>role = ''user'', content = JString (message rq), timestamp = None\<rparr>]
       \<and> length (butlast ms) = min 10 (length (stored_messages db (req_session_id rq)))
       \<and> suffix (butlast ms) (stored_messages db (req_session_id rq))"
proof -
  have "\<exists>d db1. get_or_create e db rq = Inr (d, db1) \<and> ms = messages_for_ai d rq"
    using assms by (cases rule: chat_endpoint_cases[of e db rq]) auto
  then obtain d db1 where goc: "get_or_create e db rq = Inr (d, db1)"
    and ms: "ms = messages_for_ai d rq" by blast
  have m: "messages d = stored_messages db (req_session_id rq)"
    using goc by (rule get_or_create_messages)
  have "ms = drop (length (messages d) - 10) (messages d)
              @ [\<lparr>role = ''user'', content = JString (message rq), timestamp = None\<rparr>]"
    unfolding ms messages_for_ai_def using slice_from_last[of 10 "messages d"] by simp
  then show ?thesis unfolding m by (auto simp: suffix_drop)
qed

theorem context_is_last_ten_stored_turns_witness:
  "llm_call (chat_endpoint (example_env (Some ''k'') (answering (JString ''ok'')))
               [example_doc ''s1'' (example_turns 20)] (example_request ''s1'' ''hi''))
     = Some (drop 10 (example_turns 20)
               @ [\<lparr>role = ''user'', content = JString ''hi'', timestamp = None\<rparr>],
             Inl (HTTPException 500 ''Error calling Groq API: TypeError''))
   \<and> length (drop 10 (example_turns 20)) = 10"
proof -
  have h: "llm_call (chat_endpoint (example_env (Some ''k'') (answering (JString ''ok'')))
               [example_doc ''s1'' (example_turns 20)] (example_request ''s1'' ''hi''))
     = Some (drop 10 (example_turns 20)
               @ [\<lparr>role = ''user'', content = JString ''hi'', timestamp = None\<rparr>],
             Inl (HTTPException 500 ''Error calling Groq API: TypeError''))"
    by code_simp
  have st: "stored_messages [example_doc ''s1'' (example_turns 20)]
              (req_session_id (example_request ''s1'' ''hi'')) = example_turns 20"
    by (simp add: stored_messages_def example_doc_def example_request_def)
  have "length (butlast (drop 10 (example_turns 20)
               @ [\<lparr>role = ''user'', content = JString ''hi'', timestamp = None\<rparr>]))
        = min 10 (length (example_turns 20))"
    using context_is_last_ten_stored_turns [OF h] unfolding st by blast
  then have "length (drop 10 (example_turns 20)) = 10" by simp
  with h show ?thesis by blast
qed

subsection \<open>A missing credential\<close>

text \<open>
  C5. When \<open>GROQ_API_KEY\<close> is unset or empty, \<open>get_chat_response\<close> raises the
  configuration error and has posted nothing; the chat call fails and posts no request
  to the provider, and when it got as far as the LLM client its failure is the
  configuration error, wrapped by the handler.
\<close>

theorem missing_key_sends_no_request:
  assumes "GROQ_API_KEY e = None \<or> GROQ_API_KEY e = Some ''''"
  shows "get_chat_response e ms = (Inl (HTTPException 500 ''Groq API key not configured''), [])
       \<and> posted (chat_endpoint e db rq) = []
       \<and> isl (result (chat_endpoint e db rq))
       \<and> (llm_call (chat_endpoint e db rq) \<noteq> None \<longrightarrow>
            result (chat_endpoint e db rq) =
              Inl (HTTPException 500 (''Error processing chat: '' @
                     str e (HTTPException 500 ''Groq API key not configured''))))"
proof -
  have g: "get_chat_response e ms' = (Inl (HTTPException 500 ''Groq API key not configured''), [])"
    for ms'
    using assms by (auto simp: get_chat_response_def)
  show ?thesis
    by (cases rule: chat_endpoint_cases[of e db rq]) (simp_all add: g)
qed

theorem missing_key_sends_no_request_witness:
  "GROQ_API_KEY (example_env None (answering (JString ''ok''))) = None
   \<and> posted (chat_endpoint (example_env None (answering (JString ''ok''))) []
               (example_request ''s1'' ''hi'')) = []
   \<and> result (chat_endpoint (example_env None (answering (JString ''ok''))) []
               (example_request ''s1'' ''hi''))
       = Inl (HTTPException 500 ''Error processing chat: Groq API key not configured'')"
proof -
  have h: "GROQ_API_KEY (example_env None (answering (JString ''ok''))) = None
         \<or> GROQ_API_KEY (example_env None (answering (JString ''ok''))) = Some ''''"
    by (simp add: example_env_def)
  have l: "llm_call (chat_endpoint (example_env None (answering (JString ''ok''))) []
                       (example_request ''s1'' ''hi'')) \<noteq> None"
    by (simp add: model_defs example_defs)
  show ?thesis
    using l missing_key_sends_no_request [OF h, of "[]" "[]" "example_request ''s1'' ''hi''"]
    by (simp add: example_env_def)
qed

subsection \<open>The response\<close>

text \<open>
  C10. The \<open>session_id\<close> of the response of a successful chat call is the \<open>session_id\<close>
  of the request.
\<close>

theorem response_echoes_session_id:
  assumes "result (chat_endpoint e db rq) = Inr r"
  shows "resp_session_id r = req_session_id rq"
  using assms
  by (cases rule: chat_endpoint_cases[of e db rq]) (auto dest: new_ChatResponse_session_id)

theorem response_echoes_session_id_witness:
  "result (chat_endpoint (example_env (Some ''k'') (answering (JString ''ok''))) []
             (example_request ''s1'' ''hi''))
     = Inr \<lparr>response = ''ok'', resp_session_id = ''s1''\<rparr>
   \<and> resp_session_id \<lparr>response = ''ok'', resp_session_id = ''s1''\<rparr>
       = req_session_id (example_request ''s1'' ''hi'')"
proof -
  have h: "result (chat_endpoint (example_env (Some ''k'') (answering (JString ''ok''))) []
             (example_request ''s1'' ''hi''))
     = Inr \<lparr>response = ''ok'', resp_session_id = ''s1''\<rparr>"
    by (simp add: model_defs example_defs)
  show ?thesis
    using h response_echoes_session_id [OF h] by simp
qed

subsection \<open>What a call leaves unchanged\<close>

text \<open>
  C9. A chat call on a stored session leaves \<open>recruiter_info\<close>, \<open>session_id\<close> and
  \<open>created_at\<close> of every record as they were, whatever \<open>recruiter_info\<close> the request
  carries; only \<open>messages\<close> and \<open>updated_at\<close> of that session's record can change, and the
  records of other sessions are unchanged.
\<close>

theorem recruiter_info_is_create_only:
  assumes "first_match (req_session_id rq) db = Some d"
  shows "map recruiter_info (db_after (chat_endpoint e db rq)) = map recruiter_info db
       \<and> map session_id (db_after (chat_endpoint e db rq)) = map session_id db
       \<and> map created_at (db_after (chat_endpoint e db rq)) = map created_at db
       \<and> (\<exists>d'. first_match (req_session_id rq) (db_after (chat_endpoint e db rq)) = Some d'
               \<and> recruiter_info d' = recruiter_info d
               \<and> session_id d' = session_id d
               \<and> created_at d' = created_at d)
       \<and> (\<forall>i<length db. session_id (db ! i) \<noteq> req_session_id rq \<longrightarrow>
             db_after (chat_endpoint e db rq) ! i = db ! i)"
proof -
  have goc: "get_or_create e db rq = Inr (d0, db1) \<Longrightarrow> db1 = db" for d0 db1
    using assms by (auto dest: get_or_create_cases)
  show ?thesis
  proof (cases rule: chat_endpoint_cases[of e db rq])
    case (response_failed d0 db1 ai sent x)
    then have db1: "db1 = db" by (auto dest: goc)
    show ?thesis using assms
      by (simp add: response_failed(4) db1 update_first_map first_match_update_first
          update_first_other push_and_set_def)
  next
    case (success d0 db1 ai sent r)
    then have db1: "db1 = db" by (auto dest: goc)
    show ?thesis using assms
      by (simp add: success(4) db1 update_first_map first_match_update_first
          update_first_other push_and_set_def)
  qed (use assms in \<open>auto dest: goc\<close>)
qed

theorem recruiter_info_is_create_only_witness:
  "first_match
     (req_session_id \<lparr>message = ''hi'', req_session_id = ''s1'',
        req_recruiter_info = Some \<lparr>company = Some ''Acme'', email = None, name = None\<rparr>\<rparr>)
     [example_doc ''s1'' [], example_doc ''s2'' []] = Some (example_doc ''s1'' [])
   \<and> map recruiter_info
       (db_after (chat_endpoint (example_env (Some ''k'') (answering (JString ''ok'')))
          [example_doc ''s1'' [], example_doc ''s2'' []]
          \<lparr>message = ''hi'', req_session_id = ''s1'',
            req_recruiter_info = Some \<lparr>company = Some ''Acme'', email = None, name = None\<rparr>\<rparr>))
       = [[], []]
   \<and> \<not> isl (result (chat_endpoint (example_env (Some ''k'') (answering (JString ''ok'')))
          [example_doc ''s1'' [], example_doc ''s2'' []]
          \<lparr>message = ''hi'', req_session_id = ''s1'',
            req_recruiter_info = Some \<lparr>company = Some ''Acme'', email = None, name = None\<rparr>\<rparr>))"
proof -
  let ?rq = "\<lparr>message = ''hi'', req_session_id = ''s1'',
            req_recruiter_info = Some \<lparr>company = Some ''Acme'', email = None, name = None\<rparr>\<rparr>"
  have h: "first_match (req_session_id ?rq) [example_doc ''s1'' [], example_doc ''s2'' []]
             = Some (example_doc ''s1'' [])"
    by (simp add: example_defs)
  have ok: "\<not> isl (result (chat_endpoint (example_env (Some ''k'') (answering (JString ''ok'')))
          [example_doc ''s1'' [], example_doc ''s2'' []] ?rq))"
    by (simp add: model_defs example_defs)
  have "map recruiter_info
       (db_after (chat_endpoint (example_env (Some ''k'') (answering (JString ''ok'')))
          [example_doc ''s1'' [], example_doc ''s2'' []] ?rq))
       = map recruiter_info [example_doc ''s1'' [], example_doc ''s2'' []]"
    using recruiter_info_is_create_only [OF h, THEN conjunct1] .
  then have "map recruiter_info
       (db_after (chat_endpoint (example_env (Some ''k'') (answering (JString ''ok'')))
          [example_doc ''s1'' [], example_doc ''s2'' []] ?rq)) = [[], []]"
    by (simp add: example_doc_def)
  with h ok show ?thesis by (intro conjI)
qed

subsection \<open>The shape of the stored records\<close>

text \<open>
  C8 as stated does not hold: a record is inserted without \<open>updated_at\<close>. When the
  first call of a session fails after the insert, here by a timeout of the provider, the
  record stays in the collection with no \<open>updated_at\<close>.
\<close>

theorem created_record_has_no_updated_at:
  "db_after (chat_endpoint (example_env (Some ''k'') timing_out) []
               (example_request ''s1'' ''hi''))
     = [\<lparr>session_id = ''s1'', messages = [], recruiter_info = [], created_at = 1,
          updated_at = None\<rparr>]"
  by (simp add: model_defs example_defs)

text \<open>
  C8, as amended. Start from a collection, the empty one for instance, in which
  \<open>session_id\<close> is unique, every stored message has a timestamp and the role \<open>user\<close> or
  \<open>assistant\<close>, and a record has \<open>updated_at\<close> exactly when its message sequence is not
  empty. After any sequence of chat calls, one after the other, the collection is again
  of that kind: \<open>updated_at\<close> is on the records that turns were appended to and on no
  other, so a record just created and not yet appended to has \<open>created_at\<close> and no
  \<open>updated_at\<close>.
\<close>

theorem record_shape_after_calls:
  assumes "distinct (map session_id db)"
    and "\<forall>d\<in>set db. (\<forall>m\<in>set (messages d).
                         timestamp m \<noteq> None \<and> role m \<in> {''user'', ''assistant''})
                     \<and> (updated_at d \<noteq> None \<longleftrightarrow> messages d \<noteq> [])"
  shows "distinct (map session_id (fst (run_calls db cs)))
       \<and> (\<forall>d\<in>set (fst (run_calls db cs)).
            (\<forall>m\<in>set (messages d). timestamp m \<noteq> None \<and> role m \<in> {''user'', ''assistant''})
            \<and> (updated_at d \<noteq> None \<longleftrightarrow> messages d \<noteq> []))"
  using assms
proof (induction cs arbitrary: db)
  case Nil
  then show ?case by simp
next
  case (Cons c cs)
  note step = record_shape_step [OF Cons.prems, of "fst c" "snd c"]
  show ?case
    using Cons.IH [OF step [THEN conjunct1] step [THEN conjunct2]]
    by (simp add: Let_def)
qed

theorem record_shape_after_calls_witness:
  "distinct (map session_id [example_doc ''s1'' (example_turns 2)])
   \<and> updated_at (example_doc ''s1'' (example_turns 2)) \<noteq> None
   \<and> distinct (map session_id (fst (run_calls [example_doc ''s1'' (example_turns 2)]
        [(example_env (Some ''k'') timing_out, example_request ''s2'' ''lost''),
         (example_env (Some ''k'') (answering (JString ''a3'')), example_request ''s3'' ''q3'')])))
   \<and> map updated_at (fst (run_calls [example_doc ''s1'' (example_turns 2)]
        [(example_env (Some ''k'') timing_out, example_request ''s2'' ''lost''),
         (example_env (Some ''k'') (answering (JString ''a3'')), example_request ''s3'' ''q3'')]))
       = [Some 0, None, Some 4]"
proof -
  have t: "example_turns 2 = [stored_turn ''user'' [] 0, stored_turn ''assistant'' ''x'' 1]"
    by code_simp
  have h1: "distinct (map session_id [example_doc ''s1'' (example_turns 2)])"
    by simp
  have h2: "\<forall>d\<in>set [example_doc ''s1'' (example_turns 2)].
              (\<forall>m\<in>set (messages d). timestamp m \<noteq> None \<and> role m \<in> {''user'', ''assistant''})
              \<and> (updated_at d \<noteq> None \<longleftrightarrow> messages d \<noteq> [])"
    by (simp add: t example_defs)
  have u: "updated_at (example_doc ''s1'' (example_turns 2)) \<noteq> None"
    by (simp add: t example_defs)
  note r = record_shape_after_calls [OF h1 h2, THEN conjunct1]
  have m: "map updated_at (fst (run_calls [example_doc ''s1'' (example_turns 2)]
        [(example_env (Some ''k'') timing_out, example_request ''s2'' ''lost''),
         (example_env (Some ''k'') (answering (JString ''a3'')), example_request ''s3'' ''q3'')]))
       = [Some 0, None, Some 4]"
    by (simp add: t model_defs example_defs Let_def)
  from h1 u r m show ?thesis by (intro conjI)
qed

subsection \<open>The messages sent to the provider\<close>

text \<open>
  C7. The second call of a session, run on the collection that the first call left: the
  request posted to the provider holds the system prompt, then the two stored turns with
  their \<open>timestamp\<close> key, then the new user message, which has the keys \<open>role\<close> and
  \<open>content\<close> only. The history entries are the stored dictionaries, not dictionaries of
  the shape \<open>{role, content}\<close>.
\<close>

theorem history_entries_keep_timestamp:
  "posted (chat_endpoint (example_env (Some ''k'') (answering (JString ''a2'')))
             (db_after (chat_endpoint (example_env (Some ''k'') (answering (JString ''a1''))) []
                          (example_request ''s1'' ''q1'')))
             (example_request ''s1'' ''q2''))
     = [[\<lparr>role = ''system'', content = JString ''Name: A'', timestamp = None\<rparr>,
         \<lparr>role = ''user'', content = JString ''q1'', timestamp = Some 2\<rparr>,
         \<lparr>role = ''assistant'', content = JString ''a1'', timestamp = Some 3\<rparr>,
         \<lparr>role = ''user'', content = JString ''q2'', timestamp = None\<rparr>]]"
  by (simp add: model_defs example_defs)

subsection \<open>Failures as seen by the caller\<close>

text \<open>
  C4. Whatever ends the body of the handler with an exception \<open>x\<close> reaches the caller as
  \<open>HTTPException\<close> with status 500 and the detail \<open>Error processing chat: \<close> followed by
  the text of \<open>x\<close>, and a body that returns a response returns it to the caller. Each
  failure of a chat call is such an exception: \<open>find_one\<close> raising, \<open>insert_one\<close> raising
  for a session that is not stored, the LLM client raising (the missing credential, the
  504 of a timeout, a status of the provider other than 200), \<open>update_one\<close> raising, and
  the response that cannot be built. So a call either returns a response or fails with
  status 500, never with another status.
\<close>

theorem every_failure_is_500:
  "(\<forall>x. result (chat_body e db rq) = Inl x \<longrightarrow>
        result (chat_endpoint e db rq)
          = Inl (HTTPException 500 (''Error processing chat: '' @ str e x)))
   \<and> (\<forall>r. result (chat_body e db rq) = Inr r \<longrightarrow> result (chat_endpoint e db rq) = Inr r)
   \<and> (\<forall>x. find_one_raises e = Some x \<longrightarrow>
        result (chat_endpoint e db rq)
          = Inl (HTTPException 500 (''Error processing chat: '' @ str e x)))
   \<and> (\<forall>x. find_one_raises e = None \<and> first_match (req_session_id rq) db = None
            \<and> insert_one_raises e = Some x \<longrightarrow>
        result (chat_endpoint e db rq)
          = Inl (HTTPException 500 (''Error processing chat: '' @ str e x)))
   \<and> (\<forall>ms x. llm_call (chat_endpoint e db rq) = Some (ms, Inl x) \<longrightarrow>
        fst (get_chat_response e ms) = Inl x
        \<and> result (chat_endpoint e db rq)
          = Inl (HTTPException 500 (''Error processing chat: '' @ str e x)))
   \<and> (\<forall>ms ai x. llm_call (chat_endpoint e db rq) = Some (ms, Inr ai)
            \<and> update_one_raises e = Some x \<longrightarrow>
        result (chat_endpoint e db rq)
          = Inl (HTTPException 500 (''Error processing chat: '' @ str e x)))
   \<and> (\<forall>ms ai x. llm_call (chat_endpoint e db rq) = Some (ms, Inr ai)
            \<and> update_one_raises e = None
            \<and> new_ChatResponse e ai (req_session_id rq) = Inl x \<longrightarrow>
        result (chat_endpoint e db rq)
          = Inl (HTTPException 500 (''Error processing chat: '' @ str e x)))
   \<and> ((\<exists>r. result (chat_endpoint e db rq) = Inr r)
        \<or> (\<exists>x. result (chat_endpoint e db rq)
                = Inl (HTTPException 500 (''Error processing chat: '' @ str e x))))"
proof (intro conjI allI impI)
  fix x assume "result (chat_body e db rq) = Inl x"
  then show "result (chat_endpoint e db rq)
          = Inl (HTTPException 500 (''Error processing chat: '' @ str e x))"
    by (simp add: chat_endpoint_def)
next
  fix r assume "result (chat_body e db rq) = Inr r"
  then show "result (chat_endpoint e db rq) = Inr r"
    by (simp add: chat_endpoint_def)
next
  fix x assume "find_one_raises e = Some x"
  then have "get_or_create e db rq = Inl x"
    by (simp add: get_or_create_def find_one_def)
  then show "result (chat_endpoint e db rq)
          = Inl (HTTPException 500 (''Error processing chat: '' @ str e x))"
    by (simp add: chat_endpoint_def chat_body_def)
next
  fix x assume "find_one_raises e = None \<and> first_match (req_session_id rq) db = None
            \<and> insert_one_raises e = Some x"
  then have "get_or_create e db rq = Inl x"
    by (simp add: get_or_create_def find_one_def insert_one_def)
  then show "result (chat_endpoint e db rq)
          = Inl (HTTPException 500 (''Error processing chat: '' @ str e x))"
    by (simp add: chat_endpoint_def chat_body_def)
next
  fix ms x assume l: "llm_call (chat_endpoint e db rq) = Some (ms, Inl x)"
  show "fst (get_chat_response e ms) = Inl x"
    using l by (cases rule: chat_endpoint_cases[of e db rq]) auto
  show "result (chat_endpoint e db rq)
          = Inl (HTTPException 500 (''Error processing chat: '' @ str e x))"
    using l by (cases rule: chat_endpoint_cases[of e db rq]) auto
next
  fix ms ai x
  assume "llm_call (chat_endpoint e db rq) = Some (ms, Inr ai) \<and> update_one_raises e = Some x"
  then show "result (chat_endpoint e db rq)
          = Inl (HTTPException 500 (''Error processing chat: '' @ str e x))"
    by (cases rule: chat_endpoint_cases[of e db rq]) auto
next
  fix ms ai x
  assume "llm_call (chat_endpoint e db rq) = Some (ms, Inr ai) \<and> update_one_raises e = None
            \<and> new_ChatResponse e ai (req_session_id rq) = Inl x"
  then show "result (chat_endpoint e db rq)
          = Inl (HTTPException 500 (''Error processing chat: '' @ str e x))"
    by (cases rule: chat_endpoint_cases[of e db rq]) auto
next
  show "(\<exists>r. result (chat_endpoint e db rq) = Inr r)
        \<or> (\<exists>x. result (chat_endpoint e db rq)
                = Inl (HTTPException 500 (''Error processing chat: '' @ str e x)))"
    by (cases rule: chat_endpoint_cases[of e db rq]) (simp_all, blast+)
qed

text \<open>
  Five failing calls: the database is down at \<open>find_one\<close>; it goes down at \<open>insert_one\<close>;
  the provider times out, which the LLM client raises as a 504; the database goes down
  at \<open>update_one\<close>; the provider's content is \<open>null\<close>. Each reaches the caller as a 500
  whose detail names the failure.
\<close>

theorem every_failure_is_500_witness:
  "result (chat_endpoint
             ((example_env (Some ''k'') (answering (JString ''ok'')))
                \<lparr>find_one_raises := Some (Error ''ServerSelectionTimeoutError'')\<rparr>)
             [] (example_request ''s1'' ''hi''))
     = Inl (HTTPException 500 ''Error processing chat: ServerSelectionTimeoutError'')
   \<and> result (chat_endpoint
             ((example_env (Some ''k'') (answering (JString ''ok'')))
                \<lparr>insert_one_raises := Some (Error ''AutoReconnect'')\<rparr>)
             [] (example_request ''s1'' ''hi''))
     = Inl (HTTPException 500 ''Error processing chat: AutoReconnect'')
   \<and> fst (get_chat_response (example_env (Some ''k'') timing_out)
            [\<lparr>role = ''user'', content = JString ''hi'', timestamp = None\<rparr>])
     = Inl (HTTPException 504 ''Request timeout'')
   \<and> result (chat_endpoint (example_env (Some ''k'') timing_out) []
               (example_request ''s1'' ''hi''))
     = Inl (HTTPException 500 ''Error processing chat: Request timeout'')
   \<and> result (chat_endpoint
             ((example_env (Some ''k'') (answering (JString ''ok'')))
                \<lparr>update_one_raises := Some (Error ''NotPrimaryError'')\<rparr>)
             [] (example_request ''s1'' ''hi''))
     = Inl (HTTPException 500 ''Error processing chat: NotPrimaryError'')
   \<and> result (chat_endpoint (example_env (Some ''k'') (answering JNull)) []
               (example_request ''s1'' ''hi''))
     = Inl (HTTPException 500 ''Error processing chat: ValidationError'')"
proof -
  let ?rq = "example_request ''s1'' ''hi''"
  let ?e = "example_env (Some ''k'') (answering (JString ''ok''))"
  let ?hi = "[\<lparr>role = ''user'', content = JString ''hi'', timestamp = None\<rparr>]"
  have f: "find_one_raises (?e\<lparr>find_one_raises := Some (Error ''ServerSelectionTimeoutError'')\<rparr>)
             = Some (Error ''ServerSelectionTimeoutError'')"
    by simp
  have i: "find_one_raises (?e\<lparr>insert_one_raises := Some (Error ''AutoReconnect'')\<rparr>) = None
           \<and> first_match (req_session_id ?rq) [] = None
           \<and> insert_one_raises (?e\<lparr>insert_one_raises := Some (Error ''AutoReconnect'')\<rparr>)
               = Some (Error ''AutoReconnect'')"
    by (simp add: example_env_def)
  have t: "llm_call (chat_endpoint (example_env (Some ''k'') timing_out) [] ?rq)
             = Some (?hi, Inl (HTTPException 504 ''Request timeout''))"
    by (simp add: model_defs example_defs)
  have u: "llm_call (chat_endpoint (?e\<lparr>update_one_raises := Some (Error ''NotPrimaryError'')\<rparr>)
                       [] ?rq)
             = Some (?hi, Inr (JString ''ok''))
           \<and> update_one_raises (?e\<lparr>update_one_raises := Some (Error ''NotPrimaryError'')\<rparr>)
               = Some (Error ''NotPrimaryError'')"
    by (simp add: model_defs example_defs)
  have n: "llm_call (chat_endpoint (example_env (Some ''k'') (answering JNull)) [] ?rq)
             = Some (?hi, Inr JNull)
           \<and> update_one_raises (example_env (Some ''k'') (answering JNull)) = None
           \<and> new_ChatResponse (example_env (Some ''k'') (answering JNull)) JNull
                (req_session_id ?rq) = Inl (Error ''ValidationError'')"
    by (simp add: model_defs example_defs)
  note c3 = every_failure_is_500 [THEN conjunct2, THEN conjunct2, THEN conjunct1,
      rule_format, OF f]
  note c4 = every_failure_is_500 [THEN conjunct2, THEN conjunct2, THEN conjunct2,
      THEN conjunct1, rule_format, OF i]
  note c5 = every_failure_is_500 [THEN conjunct2, THEN conjunct2, THEN conjunct2,
      THEN conjunct2, THEN conjunct1, rule_format, OF t]
  note c6 = every_failure_is_500 [THEN conjunct2, THEN conjunct2, THEN conjunct2,
      THEN conjunct2, THEN conjunct2, THEN conjunct1, rule_format, OF u]
  note c7 = every_failure_is_500 [THEN conjunct2, THEN conjunct2, THEN conjunct2,
      THEN conjunct2, THEN conjunct2, THEN conjunct2, THEN conjunct1, rule_format, OF n]
  have s: "str (example_env k p) = example_str" for k p
    by (simp add: example_env_def)
  from c3 c4 c5 c6 c7 show ?thesis
    by (simp add: s example_env_def)
qed

lemma provider_status_reaches_caller_as_500:
  "result (chat_endpoint (example_env (Some ''k'') rejecting) [] (example_request ''s1'' ''hi''))
     = Inl (HTTPException 500
             ''Error processing chat: Error calling Groq API: Groq API error: rate limit'')"
  by (simp add: model_defs example_defs)

subsection \<open>Creating the session\<close>

text \<open>
  C6. When the database answers, a chat call for a \<open>session_id\<close> that is not stored
  inserts one record: that \<open>session_id\<close>, an empty message sequence, as \<open>recruiter_info\<close>
  the company, email and name of the request's metadata (the empty dictionary when the
  request has none), the creation time, no \<open>updated_at\<close>. After the call the collection is
  the old one followed by one record of that session with this \<open>recruiter_info\<close>, whose
  messages are still empty or are the two turns of this call, and it is the only record
  with that \<open>session_id\<close>. A chat call for a stored \<open>session_id\<close> adds no record.
\<close>

theorem first_call_creates_one_record:
  assumes "find_one_raises e = None" and "insert_one_raises e = None"
  shows "(first_match (req_session_id rq) db = None \<longrightarrow>
            get_or_create e db rq =
              Inr (\<lparr>session_id = req_session_id rq, messages = [],
                    recruiter_info =
                      (case req_recruiter_info rq of
                         Some r \<Rightarrow> [(''company'', company r), (''email'', email r),
                                    (''name'', name r)]
                       | None \<Rightarrow> []),
                    created_at = utcnow_created e, updated_at = None\<rparr>,
                   db @ [\<lparr>session_id = req_session_id rq, messages = [],
                          recruiter_info =
                            (case req_recruiter_info rq of
                               Some r \<Rightarrow> [(''company'', company r), (''email'', email r),
                                          (''name'', name r)]
                             | None \<Rightarrow> []),
                          created_at = utcnow_created e, updated_at = None\<rparr>])
          \<and> (\<exists>d. db_after (chat_endpoint e db rq) = db @ [d]
                 \<and> session_id d = req_session_id rq
                 \<and> recruiter_info d =
                     (case req_recruiter_info rq of
                        Some r \<Rightarrow> [(''company'', company r), (''email'', email r),
                                   (''name'', name r)]
                      | None \<Rightarrow> [])
                 \<and> created_at d = utcnow_created e
                 \<and> messages d = appended (chat_endpoint e db rq))
          \<and> length (filter (\<lambda>d. session_id d = req_session_id rq)
                      (db_after (chat_endpoint e db rq))) = 1)
       \<and> (first_match (req_session_id rq) db \<noteq> None \<longrightarrow>
            length (db_after (chat_endpoint e db rq)) = length db
          \<and> map session_id (db_after (chat_endpoint e db rq)) = map session_id db)"
proof (intro conjI impI)
  let ?info = "case req_recruiter_info rq of
                 Some r \<Rightarrow> [(''company'', company r), (''email'', email r), (''name'', name r)]
               | None \<Rightarrow> []"
  let ?new = "\<lparr>session_id = req_session_id rq, messages = [], recruiter_info = ?info,
               created_at = utcnow_created e, updated_at = None\<rparr>"
  assume absent: "first_match (req_session_id rq) db = None"
  have new: "new_chat_doc e rq = ?new"
    by (simp add: new_chat_doc_def recruiter_dict_def split: option.splits)
  show goc: "get_or_create e db rq = Inr (?new, db @ [?new])"
    using assms absent new by (simp add: get_or_create_def find_one_def insert_one_def)
  have nofilter: "filter (\<lambda>d. session_id d = req_session_id rq) db = []"
    using absent by (auto simp: first_match_None filter_empty_conv image_iff)
  have shape: "\<exists>d. db_after (chat_endpoint e db rq) = db @ [d]
                 \<and> session_id d = req_session_id rq
                 \<and> recruiter_info d = ?info
                 \<and> created_at d = utcnow_created e
                 \<and> messages d = appended (chat_endpoint e db rq)"
  proof (cases rule: chat_endpoint_cases[of e db rq])
    case (response_failed d db1 ai sent x)
    from goc response_failed(1) have "db1 = db @ [?new]" by simp
    then show ?thesis using response_failed(4) absent
      by (simp add: update_first_append_new push_and_set_def)
  next
    case (success d db1 ai sent r)
    from goc success(1) have "db1 = db @ [?new]" by simp
    then show ?thesis using success(4) absent
      by (simp add: update_first_append_new push_and_set_def)
  qed (use goc in auto)
  then show "\<exists>d. db_after (chat_endpoint e db rq) = db @ [d]
                 \<and> session_id d = req_session_id rq
                 \<and> recruiter_info d = ?info
                 \<and> created_at d = utcnow_created e
                 \<and> messages d = appended (chat_endpoint e db rq)" .
  from shape show "length (filter (\<lambda>d. session_id d = req_session_id rq)
                      (db_after (chat_endpoint e db rq))) = 1"
    using nofilter by auto
next
  assume present: "first_match (req_session_id rq) db \<noteq> None"
  have goc: "get_or_create e db rq = Inr (d, db1) \<Longrightarrow> db1 = db" for d db1
    using present by (auto dest: get_or_create_cases)
  show "length (db_after (chat_endpoint e db rq)) = length db"
    by (cases rule: chat_endpoint_cases[of e db rq]) (auto dest: goc)
  show "map session_id (db_after (chat_endpoint e db rq)) = map session_id db"
    by (cases rule: chat_endpoint_cases[of e db rq]) (auto dest: goc simp: update_first_map)
qed

text \<open>
  A first call that carries recruiter metadata and succeeds, and a second call of the
  same session, which adds no record.
\<close>

theorem first_call_creates_one_record_witness:
  "find_one_raises (example_env (Some ''k'') (answering (JString ''ok''))) = None
   \<and> insert_one_raises (example_env (Some ''k'') (answering (JString ''ok''))) = None
   \<and> first_match (req_session_id (example_request_from ''s1'' ''hi'')) [] = None
   \<and> map recruiter_info
       (db_after (chat_endpoint (example_env (Some ''k'') (answering (JString ''ok''))) []
                    (example_request_from ''s1'' ''hi'')))
       = [[(''company'', Some ''Acme''), (''email'', Some ''r@acme.example''), (''name'', None)]]
   \<and> map (\<lambda>d. length (messages d))
       (db_after (chat_endpoint (example_env (Some ''k'') (answering (JString ''ok''))) []
                    (example_request_from ''s1'' ''hi'')))
       = [2]
   \<and> first_match (req_session_id (example_request ''s1'' ''again''))
       (db_after (chat_endpoint (example_env (Some ''k'') (answering (JString ''ok''))) []
                    (example_request_from ''s1'' ''hi''))) \<noteq> None
   \<and> length (db_after (chat_endpoint (example_env (Some ''k'') (answering (JString ''ok'')))
                (db_after (chat_endpoint (example_env (Some ''k'') (answering (JString ''ok'')))
                             [] (example_request_from ''s1'' ''hi'')))
                (example_request ''s1'' ''again''))) = 1"
proof -
  let ?e = "example_env (Some ''k'') (answering (JString ''ok''))"
  let ?rq = "example_request_from ''s1'' ''hi''"
  define db1 where "db1 = db_after (chat_endpoint ?e [] ?rq)"
  have f: "find_one_raises ?e = None" and i: "insert_one_raises ?e = None"
    by (simp_all add: example_env_def)
  have a: "first_match (req_session_id ?rq) [] = None"
    by simp
  have ap: "appended (chat_endpoint ?e [] ?rq)
              = [\<lparr>role = ''user'', content = JString ''hi'', timestamp = Some 2\<rparr>,
                 \<lparr>role = ''assistant'', content = JString ''ok'', timestamp = Some 3\<rparr>]"
    by (simp add: model_defs example_defs)
  from first_call_creates_one_record [OF f i, of ?rq "[]", THEN conjunct1, rule_format, OF a,
      THEN conjunct2, THEN conjunct1, folded db1_def]
  obtain d where d: "db1 = [d]"
    "recruiter_info d =
       (case req_recruiter_info ?rq of
          Some r \<Rightarrow> [(''company'', company r), (''email'', email r), (''name'', name r)]
        | None \<Rightarrow> [])"
    "messages d = appended (chat_endpoint ?e [] ?rq)"
    "session_id d = req_session_id ?rq"
    by auto
  have r: "map recruiter_info db1
             = [[(''company'', Some ''Acme''), (''email'', Some ''r@acme.example''),
                 (''name'', None)]]"
    using d(1,2) by (simp add: example_request_from_def)
  have m: "map (\<lambda>d. length (messages d)) db1 = [2]"
    using d(1,3) ap by simp
  have p: "first_match (req_session_id (example_request ''s1'' ''again'')) db1 \<noteq> None"
    using d(1,4) by (simp add: example_defs)
  have l: "length (db_after (chat_endpoint ?e db1 (example_request ''s1'' ''again''))) = 1"
    using first_call_creates_one_record [OF f i, of "example_request ''s1'' ''again''" db1,
        THEN conjunct2, rule_format, OF p, THEN conjunct1] d(1)
    by simp
  from f i a r m p l show ?thesis unfolding db1_def by (intro conjI)
qed

subsection \<open>Successful calls\<close>




end
